theory Spec2Isabelle
  imports Main "HOL-Library.Monad_Syntax"
begin

section \<open>Go values as the package sees them\<close>

text \<open>
  \<^verbatim>\<open>reflect.Kind\<close>. The package compares kinds with \<^verbatim>\<open>reflect.Ptr\<close> and
  \<^verbatim>\<open>reflect.String\<close> only.
\<close>

datatype reflect_Kind =
    reflect_Invalid | reflect_Bool
  | reflect_Int | reflect_Int8 | reflect_Int16 | reflect_Int32 | reflect_Int64
  | reflect_Uint | reflect_Uint8 | reflect_Uint16 | reflect_Uint32 | reflect_Uint64
  | reflect_Uintptr | reflect_Float32 | reflect_Float64
  | reflect_Complex64 | reflect_Complex128
  | reflect_Array | reflect_Chan | reflect_Func | reflect_Interface | reflect_Map
  | reflect_Ptr | reflect_Slice | reflect_String | reflect_Struct
  | reflect_UnsafePointer

text \<open>
  A non-nil \<^verbatim>\<open>reflect.Type\<close>: two descriptors are the same type exactly when they are
  equal; \<open>type_String\<close> is what the method \<^verbatim>\<open>String()\<close> prints, which Go does not
  promise to be unique among types, so the identity is a field of its own.
\<close>

datatype reflect_Type = Type (type_identity: string) (type_String: string)

text \<open>
  The content of a value, as far as the package and its tests build it; \<open>VChan\<close> is a
  channel, a value that \<^verbatim>\<open>json.Marshal\<close> does not support.
\<close>

datatype govalue =
    VString string
  | VInt int
  | VBool bool
  | VStruct "(string \<times> govalue) list"
  | VChan

text \<open>
  A value of the interface type \<^verbatim>\<open>any\<close>: the nil interface, or a dynamic type with a
  value. A generic parameter \<^verbatim>\<open>detail T\<close> reaches \<^verbatim>\<open>reflect.TypeOf\<close> and the field
  \<^verbatim>\<open>detail any\<close> through this conversion; it is the nil interface when \<^verbatim>\<open>T\<close> is an
  interface type and the argument is nil.
\<close>

datatype any = NilAny | Dyn reflect_Type govalue

text \<open>\<^verbatim>\<open>reflect.TypeOf\<close> returns the nil \<^verbatim>\<open>Type\<close> (here \<open>None\<close>) for the nil interface.\<close>

fun reflect_TypeOf :: "any \<Rightarrow> reflect_Type option" where
  "reflect_TypeOf NilAny = None"
| "reflect_TypeOf (Dyn t v) = Some t"

section \<open>errorex.go: codes, detail structs, the typed error\<close>

definition ErrCodeUnknownError :: string where
  "ErrCodeUnknownError = ''errorex.000''"

definition ErrCodeNotRegistered :: string where
  "ErrCodeNotRegistered = ''errorex.001''"

definition ErrCodeAlreadyRegistered :: string where
  "ErrCodeAlreadyRegistered = ''errorex.002''"

definition ErrDetailTypeMismatch :: string where
  "ErrDetailTypeMismatch = ''errorex.003''"

text \<open>The three detail struct types of the package and their struct literals.\<close>

definition UnknownErrorDetail_type :: reflect_Type where
  "UnknownErrorDetail_type =
     Type ''github.com/fkmatsuda/errorex.UnknownErrorDetail'' ''errorex.UnknownErrorDetail''"

definition ErrorEXDetail_type :: reflect_Type where
  "ErrorEXDetail_type =
     Type ''github.com/fkmatsuda/errorex.ErrorEXDetail'' ''errorex.ErrorEXDetail''"

definition ErrorEXDetailTypeMismatch_type :: reflect_Type where
  "ErrorEXDetailTypeMismatch_type =
     Type ''github.com/fkmatsuda/errorex.ErrorEXDetailTypeMismatch''
          ''errorex.ErrorEXDetailTypeMismatch''"

definition UnknownErrorDetail :: "string \<Rightarrow> any" where
  "UnknownErrorDetail d = Dyn UnknownErrorDetail_type (VStruct [(''Detail'', VString d)])"

definition ErrorEXDetail :: "string \<Rightarrow> any" where
  "ErrorEXDetail c = Dyn ErrorEXDetail_type (VStruct [(''Code'', VString c)])"

definition ErrorEXDetailTypeMismatch :: "string \<Rightarrow> string \<Rightarrow> any" where
  "ErrorEXDetailTypeMismatch expected actual =
     Dyn ErrorEXDetailTypeMismatch_type
       (VStruct [(''ExpectedType'', VString expected), (''ActualType'', VString actual)])"

text \<open>\<^verbatim>\<open>type ex struct { code string; detail any }\<close>\<close>

record ex =
  code :: string
  detail :: any

text \<open>
  \<^verbatim>\<open>type errorCodeRegistry struct\<close>; the field \<^verbatim>\<open>code\<close> is \<open>entry_code\<close> here, the
  name \<open>code\<close> being the field of \<open>ex\<close>. The field \<open>detailType\<close> is \<open>None\<close> when the
  exemplar was the nil interface.
\<close>

record errorCodeRegistry =
  entry_code :: string
  description :: string
  detailType :: "reflect_Type option"

text \<open>\<^verbatim>\<open>var errorCodes = make(map[string]errorCodeRegistry)\<close>, passed explicitly.\<close>

type_synonym registry = "string \<rightharpoonup> errorCodeRegistry"

text \<open>
  What a panic carries: the typed error of a \<^verbatim>\<open>panic(New(...))\<close>, or anything else (a
  run-time error of Go, the string of a \<^verbatim>\<open>panic\<close> of the library \<^verbatim>\<open>reflect\<close> or of a
  method of another package), kept by its message.
\<close>

datatype panic_value = PanicEX ex | RuntimePanic string

datatype 'a result = Return 'a | Panic panic_value

definition nil_dereference :: panic_value where
  "nil_dereference =
     RuntimePanic ''runtime error: invalid memory address or nil pointer dereference''"

text \<open>
  \<^verbatim>\<open>panic(New(...))\<close>: the argument is evaluated first, so a panic of the inner call is
  the one that propagates; otherwise the panic carries the error that was built.
\<close>

definition panic :: "ex result \<Rightarrow> 'a result" where
  "panic r = (case r of Return e \<Rightarrow> Panic (PanicEX e) | Panic p \<Rightarrow> Panic p)"

text \<open>
  \<^verbatim>\<open>func New[T any](code string, detail T) EX\<close>. The two failure branches call \<open>New\<close>
  again, which does not return when the reserved code it uses is itself missing or
  registered with another type: \<open>None\<close> is that endless recursion. Calling
  \<^verbatim>\<open>String()\<close> on a nil \<^verbatim>\<open>reflect.Type\<close> is a nil dereference; the fields of the struct
  literal are evaluated in order, \<^verbatim>\<open>ExpectedType\<close> first.
\<close>

partial_function (option) New :: "registry \<Rightarrow> string \<Rightarrow> any \<Rightarrow> ex result option" where
  "New errorCodes c d =
     (case errorCodes c of
        None \<Rightarrow>
          do { r \<leftarrow> New errorCodes ErrCodeNotRegistered (ErrorEXDetail c); Some (panic r) }
      | Some errorRegistry \<Rightarrow>
          if reflect_TypeOf d \<noteq> detailType errorRegistry then
            (case detailType errorRegistry of
               None \<Rightarrow> Some (Panic nil_dereference)
             | Some expected \<Rightarrow>
                 (case reflect_TypeOf d of
                    None \<Rightarrow> Some (Panic nil_dereference)
                  | Some actual \<Rightarrow>
                      do { r \<leftarrow> New errorCodes ErrDetailTypeMismatch
                                 (ErrorEXDetailTypeMismatch (type_String expected)
                                    (type_String actual));
                           Some (panic r) }))
          else Some (Return \<lparr>code = c, detail = d\<rparr>))"

text \<open>\<^verbatim>\<open>func RegisterErrorCode[T any](code string, description string, detail T)\<close>,
  returning the updated map.\<close>

definition RegisterErrorCode ::
  "registry \<Rightarrow> string \<Rightarrow> string \<Rightarrow> any \<Rightarrow> registry result option" where
  "RegisterErrorCode errorCodes c descr d =
     (case errorCodes c of
        Some _ \<Rightarrow>
          do { r \<leftarrow> New errorCodes ErrCodeAlreadyRegistered (ErrorEXDetail c);
               Some (panic r) }
      | None \<Rightarrow>
          Some (Return (errorCodes(c \<mapsto>
            \<lparr>entry_code = c, description = descr, detailType = reflect_TypeOf d\<rparr>))))"

text \<open>
  Sequencing of calls that may panic or not return: a panic ends the sequence.
\<close>

definition and_then :: "'a result option \<Rightarrow> ('a \<Rightarrow> 'b result option) \<Rightarrow> 'b result option" where
  "and_then m f =
     (case m of None \<Rightarrow> None | Some (Panic p) \<Rightarrow> Some (Panic p) | Some (Return x) \<Rightarrow> f x)"

text \<open>\<^verbatim>\<open>func init()\<close>, run on the map as \<^verbatim>\<open>make\<close> leaves it.\<close>

definition init :: "registry \<Rightarrow> registry result option" where
  "init errorCodes =
     and_then (RegisterErrorCode errorCodes ErrCodeUnknownError ''Unknown errorex''
                 (UnknownErrorDetail [])) (\<lambda>r1.
     and_then (RegisterErrorCode r1 ErrCodeNotRegistered ''Errorex code not registered''
                 (ErrorEXDetail [])) (\<lambda>r2.
     and_then (RegisterErrorCode r2 ErrCodeAlreadyRegistered ''Errorex code already registered''
                 (ErrorEXDetail [])) (\<lambda>r3.
     RegisterErrorCode r3 ErrDetailTypeMismatch ''Errorex detail type mismatch''
       (ErrorEXDetailTypeMismatch [] []))))"

text \<open>The map once \<open>init\<close> has run.\<close>

definition initial_registry :: registry where
  "initial_registry =
     [ErrCodeUnknownError \<mapsto>
        \<lparr>entry_code = ErrCodeUnknownError, description = ''Unknown errorex'',
         detailType = Some UnknownErrorDetail_type\<rparr>,
      ErrCodeNotRegistered \<mapsto>
        \<lparr>entry_code = ErrCodeNotRegistered, description = ''Errorex code not registered'',
         detailType = Some ErrorEXDetail_type\<rparr>,
      ErrCodeAlreadyRegistered \<mapsto>
        \<lparr>entry_code = ErrCodeAlreadyRegistered,
         description = ''Errorex code already registered'',
         detailType = Some ErrorEXDetail_type\<rparr>,
      ErrDetailTypeMismatch \<mapsto>
        \<lparr>entry_code = ErrDetailTypeMismatch, description = ''Errorex detail type mismatch'',
         detailType = Some ErrorEXDetailTypeMismatch_type\<rparr>]"

text \<open>
  What \<open>init\<close> establishes and no later registration can undo: each reserved code is
  present with the detail type of its struct.
\<close>

definition has_type :: "registry \<Rightarrow> string \<Rightarrow> reflect_Type \<Rightarrow> bool" where
  "has_type errorCodes c t =
     (case errorCodes c of None \<Rightarrow> False | Some e \<Rightarrow> detailType e = Some t)"

definition reserved_registered :: "registry \<Rightarrow> bool" where
  "reserved_registered errorCodes \<longleftrightarrow>
     has_type errorCodes ErrCodeUnknownError UnknownErrorDetail_type \<and>
     has_type errorCodes ErrCodeNotRegistered ErrorEXDetail_type \<and>
     has_type errorCodes ErrCodeAlreadyRegistered ErrorEXDetail_type \<and>
     has_type errorCodes ErrDetailTypeMismatch ErrorEXDetailTypeMismatch_type"

text \<open>The maps a program can be in after some further successful registrations.\<close>

inductive registered_later :: "registry \<Rightarrow> registry \<Rightarrow> bool" where
  same: "registered_later r r"
| step: "registered_later r r1 \<Longrightarrow> RegisterErrorCode r1 c descr d = Some (Return r2)
           \<Longrightarrow> registered_later r r2"

text \<open>\<^verbatim>\<open>func (e *ex) Code() string\<close> and \<^verbatim>\<open>func (e *ex) Detail() any\<close>\<close>

definition Code :: "ex \<Rightarrow> string" where
  "Code e = code e"

definition Detail :: "ex \<Rightarrow> any" where
  "Detail e = detail e"

text \<open>
  \<^verbatim>\<open>json.Marshal\<close> belongs to the standard library and is a parameter here. For a value
  it returns the bytes (\<open>Inr\<close>) or an error, of which only the message that \<^verbatim>\<open>%v\<close>
  prints is kept (\<open>Inl\<close>); or it panics: \<^verbatim>\<open>json.Marshal\<close> recovers its own errors only
  and lets a panic of a \<^verbatim>\<open>MarshalJSON\<close> method of the value pass.
\<close>

type_synonym marshaller = "any \<Rightarrow> (string + string) result"

text \<open>
  \<^verbatim>\<open>func (e *ex) Error() string\<close>, the two \<^verbatim>\<open>fmt.Sprintf\<close> formats written out. The
  method has no \<^verbatim>\<open>recover\<close>: a panic of \<^verbatim>\<open>json.Marshal\<close> is a panic of \<open>Error\<close>.
\<close>

definition Error :: "marshaller \<Rightarrow> ex \<Rightarrow> string result" where
  \<open>Error json_Marshal e =
     (case json_Marshal (detail e) of
        Panic p \<Rightarrow> Panic p
      | Return (Inl err) \<Rightarrow>
          Return (''{"code": "'' @ code e @ ''", "detail": "failed to marshal detail: ''
                    @ err @ ''"}'')
      | Return (Inr detailJSON) \<Rightarrow>
          Return (''{"code": "'' @ code e @ ''", "detail": '' @ detailJSON @ ''}''))\<close>

section \<open>Error values and the reflection of \<open>Is\<close>\<close>

text \<open>
  What \<^verbatim>\<open>reflect.Value.Call\<close> returns for one result of a method: its kind and what
  \<^verbatim>\<open>String()\<close> gives on it (the string itself when the kind is \<^verbatim>\<open>reflect.String\<close>).
\<close>

record reflect_Value =
  value_Kind :: reflect_Kind
  value_String :: string

text \<open>
  A method as \<^verbatim>\<open>MethodByName\<close> finds it: the number of parameters after the receiver,
  whether the last one is variadic, and what its body does when it runs without
  arguments: it returns its results or panics.
\<close>

record method_value =
  numIn :: nat
  isVariadic :: bool
  outs :: "reflect_Value list result"

text \<open>
  A non-nil value of the interface \<^verbatim>\<open>EX\<close>: the package's own \<^verbatim>\<open>*ex\<close>, pointing to a
  struct (\<open>ExPtr\<close>) or nil (\<open>NilExPtr\<close>, the value \<^verbatim>\<open>(*ex)(nil)\<close>, whose three methods
  dereference the receiver), or a value of another type with the three methods
  \<^verbatim>\<open>Error() string\<close>, \<^verbatim>\<open>Code() string\<close> and \<^verbatim>\<open>Detail() any\<close>, of which the kind and
  what each method does (it returns its result or panics) are kept. The type is
  \<open>EX_value\<close> here, \<open>EX\<close> being a token of HOL's syntax.
\<close>

record foreign_ex =
  fx_Kind :: reflect_Kind
  fx_Code :: "string result"
  fx_Detail :: "any result"
  fx_Error :: "string result"

datatype EX_value = ExPtr ex | NilExPtr | ForeignEX foreign_ex

text \<open>
  A non-nil \<^verbatim>\<open>error\<close> that does not implement \<^verbatim>\<open>EX\<close>: its kind, the exported method
  named \<^verbatim>\<open>Code\<close> of its method set when there is one (of any signature), and what
  \<^verbatim>\<open>Error()\<close> does: it returns the message or panics (as a method with a pointer receiver
  does on a nil pointer that it dereferences).
\<close>

record plain_error =
  pe_Kind :: reflect_Kind
  pe_Code :: "method_value option"
  pe_Error :: "string result"

datatype error_value = AsEX EX_value | Plain plain_error

text \<open>An \<^verbatim>\<open>error\<close> is nil (\<open>None\<close>) or holds a value; so is an \<^verbatim>\<open>EX\<close>.\<close>

type_synonym goerror = "error_value option"


text \<open>\<^verbatim>\<open>reflect.ValueOf(err).Kind()\<close> for a non-nil \<open>err\<close>.\<close>

fun Kind :: "error_value \<Rightarrow> reflect_Kind" where
  "Kind (AsEX (ExPtr e)) = reflect_Ptr"
| "Kind (AsEX NilExPtr) = reflect_Ptr"
| "Kind (AsEX (ForeignEX f)) = fx_Kind f"
| "Kind (Plain p) = pe_Kind p"

text \<open>A method \<^verbatim>\<open>Code() string\<close>: without parameters, with one result of kind string.\<close>

definition Code_method :: "string result \<Rightarrow> method_value" where
  "Code_method r =
     \<lparr>numIn = 0, isVariadic = False,
      outs = (case r of
                Return s \<Rightarrow> Return [\<lparr>value_Kind = reflect_String, value_String = s\<rparr>]
              | Panic p \<Rightarrow> Panic p)\<rparr>"

definition string_method :: "string \<Rightarrow> method_value" where
  "string_method s = Code_method (Return s)"

text \<open>
  \<^verbatim>\<open>errorValue.MethodByName("Code")\<close>; \<open>None\<close> is the invalid \<^verbatim>\<open>Value\<close>. On the nil
  \<^verbatim>\<open>*ex\<close> the method is found, and its body \<^verbatim>\<open>return e.code\<close> is a nil dereference.
\<close>

fun MethodByName_Code :: "error_value \<Rightarrow> method_value option" where
  "MethodByName_Code (AsEX (ExPtr e)) = Some (string_method (Code e))"
| "MethodByName_Code (AsEX NilExPtr) = Some (Code_method (Panic nil_dereference))"
| "MethodByName_Code (AsEX (ForeignEX f)) = Some (Code_method (fx_Code f))"
| "MethodByName_Code (Plain p) = pe_Code p"

text \<open>
  \<^verbatim>\<open>codeMethod.Call([]reflect.Value{})\<close>: \<^verbatim>\<open>Call\<close> panics when it is given fewer
  arguments than the method has parameters, the variadic one not counted; otherwise the
  method runs, and a panic of its body is a panic of \<^verbatim>\<open>Call\<close>.
\<close>

definition Call :: "method_value \<Rightarrow> reflect_Value list result" where
  "Call m =
     (if 0 < (if isVariadic m then numIn m - 1 else numIn m)
      then Panic (RuntimePanic ''reflect: Call with too few input arguments'')
      else outs m)"

text \<open>\<^verbatim>\<open>func Is(err error, code string) bool\<close>\<close>

definition Is :: "registry \<Rightarrow> goerror \<Rightarrow> string \<Rightarrow> bool result option" where
  "Is errorCodes err c =
     (case errorCodes c of
        None \<Rightarrow>
          do { r \<leftarrow> New errorCodes ErrCodeNotRegistered (ErrorEXDetail c); Some (panic r) }
      | Some _ \<Rightarrow>
          Some (case err of
              None \<Rightarrow> Return False
            | Some v \<Rightarrow>
                if Kind v \<noteq> reflect_Ptr then Return False
                else (case MethodByName_Code v of
                    None \<Rightarrow> Return False
                  | Some codeMethod \<Rightarrow>
                      (case Call codeMethod of
                         Panic p \<Rightarrow> Panic p
                       | Return codeValue \<Rightarrow>
                           if length codeValue \<noteq> 1 then Return False
                           else if value_Kind (codeValue ! 0) \<noteq> reflect_String
                             then Return False
                           else Return (value_String (codeValue ! 0) = c)))))"

section \<open>error\_converter.go: the chain of converters\<close>

text \<open>
  A non-nil value of the interface \<^verbatim>\<open>ErrorConverter\<close> is what its \<^verbatim>\<open>ConvertError\<close>
  does: for an error it returns an \<^verbatim>\<open>EX\<close> (nil is \<open>None\<close>), panics, or does not return
  (a chain linked into a cycle).
\<close>

type_synonym ErrorConverter = "goerror \<Rightarrow> EX_value option result option"

text \<open>\<^verbatim>\<open>type BaseErrorConverter struct { next ErrorConverter }\<close>; a nil \<^verbatim>\<open>next\<close> is
  \<open>None\<close>.\<close>

record BaseErrorConverter =
  next' :: "ErrorConverter option"

text \<open>\<^verbatim>\<open>func (b *BaseErrorConverter) SetNext(next ErrorConverter)\<close>, returning the node.\<close>

definition SetNext :: "BaseErrorConverter \<Rightarrow> ErrorConverter option \<Rightarrow> BaseErrorConverter" where
  "SetNext b n = b\<lparr>next' := n\<rparr>"

text \<open>\<^verbatim>\<open>func (b *BaseErrorConverter) ConvertError(err error) EX\<close>\<close>

definition ConvertError :: "BaseErrorConverter \<Rightarrow> ErrorConverter" where
  "ConvertError b err =
     (case next' b of Some n \<Rightarrow> n err | None \<Rightarrow> Some (Return None))"

text \<open>
  \<^verbatim>\<open>err.Error()\<close> on a value of type \<^verbatim>\<open>error\<close>: a nil dereference on the nil
  interface and on the nil \<^verbatim>\<open>*ex\<close> (\<^verbatim>\<open>e.detail\<close>), the method \<open>Error\<close> above on an
  \<^verbatim>\<open>*ex\<close>, and what the method of the value does otherwise.
\<close>

fun error_Error :: "marshaller \<Rightarrow> goerror \<Rightarrow> string result" where
  "error_Error json_Marshal None = Panic nil_dereference"
| "error_Error json_Marshal (Some (AsEX (ExPtr e))) = Error json_Marshal e"
| "error_Error json_Marshal (Some (AsEX NilExPtr)) = Panic nil_dereference"
| "error_Error json_Marshal (Some (AsEX (ForeignEX f))) = fx_Error f"
| "error_Error json_Marshal (Some (Plain p)) = pe_Error p"

text \<open>\<^verbatim>\<open>type unknownErrorConverter struct { BaseErrorConverter }\<close> and its
  \<^verbatim>\<open>ConvertError\<close>, which reads the map of codes through \<open>New\<close>.\<close>

record unknownErrorConverter =
  unknown_base :: BaseErrorConverter

definition unknown_ConvertError ::
  "marshaller \<Rightarrow> registry \<Rightarrow> unknownErrorConverter \<Rightarrow> ErrorConverter" where
  "unknown_ConvertError json_Marshal errorCodes u err =
     (case error_Error json_Marshal err of
        Panic p \<Rightarrow> Some (Panic p)
      | Return msg \<Rightarrow>
          do { r \<leftarrow> New errorCodes ErrCodeUnknownError (UnknownErrorDetail msg);
               Some (case r of Return e \<Rightarrow> Return (Some (ExPtr e)) | Panic p \<Rightarrow> Panic p) })"

definition NewUnknownErrorConverter :: unknownErrorConverter where
  "NewUnknownErrorConverter = \<lparr>unknown_base = \<lparr>next' = None\<rparr>\<rparr>"

text \<open>\<^verbatim>\<open>type exErrorConverter struct { BaseErrorConverter }\<close>; the type assertion
  \<^verbatim>\<open>err.(EX)\<close> succeeds exactly on the values that implement \<^verbatim>\<open>EX\<close>.\<close>

record exErrorConverter =
  ex_base :: BaseErrorConverter

text \<open>\<^verbatim>\<open>ex, ok := err.(EX)\<close>: \<open>Some ex\<close> when \<open>ok\<close>.\<close>

fun assert_EX :: "goerror \<Rightarrow> EX_value option" where
  "assert_EX None = None"
| "assert_EX (Some (AsEX x)) = Some x"
| "assert_EX (Some (Plain p)) = None"

definition ex_ConvertError :: "exErrorConverter \<Rightarrow> ErrorConverter" where
  "ex_ConvertError c err =
     (case assert_EX err of
        Some x \<Rightarrow> Some (Return (Some x))
      | None \<Rightarrow> ConvertError (ex_base c) err)"

definition NewEXErrorConverter :: "ErrorConverter option \<Rightarrow> exErrorConverter" where
  "NewEXErrorConverter n = \<lparr>ex_base = SetNext \<lparr>next' = None\<rparr> n\<rparr>"

section \<open>Values of the package's tests\<close>

text \<open>
  The tests register \<^verbatim>\<open>"test.is"\<close> with an exemplar of the unnamed type
  \<^verbatim>\<open>struct{ Message string }\<close>, and expect the JSON of
  \<^verbatim>\<open>struct{ Message string }{Message: "test detail"}\<close> in \<^verbatim>\<open>TestEX_Error\<close>.
\<close>

definition Message_type :: reflect_Type where
  "Message_type = Type ''struct { Message string }'' ''struct { Message string }''"

definition Message :: "string \<Rightarrow> any" where
  "Message m = Dyn Message_type (VStruct [(''Message'', VString m)])"

definition test_registry :: registry where
  "test_registry =
     initial_registry(''test.is'' \<mapsto>
       \<lparr>entry_code = ''test.is'', description = ''test description'',
        detailType = Some Message_type\<rparr>)"

text \<open>
  Two more details, as a program using the package can declare them: a channel,
  \<^verbatim>\<open>make(chan int)\<close>, and a value of
  \<^verbatim>\<open>type Boom struct{}\<close> with
  \<^verbatim>\<open>func (Boom) MarshalJSON() ([]byte, error) { panic("boom") }\<close>.
\<close>

definition chan_int_type :: reflect_Type where
  "chan_int_type = Type ''chan int'' ''chan int''"

definition a_channel :: any where
  "a_channel = Dyn chan_int_type VChan"

definition Boom_type :: reflect_Type where
  "Boom_type = Type ''github.com/fkmatsuda/errorex.Boom'' ''errorex.Boom''"

definition Boom :: any where
  "Boom = Dyn Boom_type (VStruct [])"

text \<open>
  What \<^verbatim>\<open>json.Marshal\<close> does on four values: the JSON of the nil interface and of the
  detail of \<^verbatim>\<open>TestEX_Error\<close>, its error for a channel, and the panic of \<^verbatim>\<open>MarshalJSON\<close>
  that it lets pass. It is left unspecified on every other value, so that nothing can be
  derived from it there.
\<close>

definition test_Marshal :: marshaller where
  \<open>test_Marshal d =
     (if d = NilAny then Return (Inr ''null'')
      else if d = Message ''test detail'' then Return (Inr ''{"Message":"test detail"}'')
      else if d = a_channel then Return (Inl ''json: unsupported type: chan int'')
      else if d = Boom then Panic (RuntimePanic ''boom'')
      else undefined)\<close>

section \<open>The reserved codes and the growth of the map\<close>

lemmas reserved_codes =
  ErrCodeUnknownError_def ErrCodeNotRegistered_def ErrCodeAlreadyRegistered_def
  ErrDetailTypeMismatch_def

lemma New_accepts:
  "errorCodes c = Some e \<Longrightarrow> reflect_TypeOf d = detailType e
     \<Longrightarrow> New errorCodes c d = Some (Return \<lparr>code = c, detail = d\<rparr>)"
  by (subst New.simps) simp

lemma New_reserved:
  "has_type errorCodes c t
     \<Longrightarrow> New errorCodes c (Dyn t v) = Some (Return \<lparr>code = c, detail = Dyn t v\<rparr>)"
  by (auto simp: has_type_def New_accepts split: option.splits)

lemma New_not_registered:
  assumes "reserved_registered errorCodes" and "errorCodes c = None"
  shows "New errorCodes c d =
           Some (Panic (PanicEX \<lparr>code = ErrCodeNotRegistered, detail = ErrorEXDetail c\<rparr>))"
proof -
  have "has_type errorCodes ErrCodeNotRegistered ErrorEXDetail_type"
    using assms(1) by (simp add: reserved_registered_def)
  then have "New errorCodes ErrCodeNotRegistered (ErrorEXDetail c) =
      Some (Return \<lparr>code = ErrCodeNotRegistered, detail = ErrorEXDetail c\<rparr>)"
    unfolding ErrorEXDetail_def by (rule New_reserved)
  then show ?thesis
    using assms(2) by (subst New.simps) (simp add: panic_def)
qed

lemma New_mismatch:
  assumes "reserved_registered errorCodes" and "errorCodes c = Some e"
    and "detailType e = Some expected" and "reflect_TypeOf d = Some actual"
    and "actual \<noteq> expected"
  shows "New errorCodes c d =
           Some (Panic (PanicEX \<lparr>code = ErrDetailTypeMismatch,
             detail = ErrorEXDetailTypeMismatch (type_String expected) (type_String actual)\<rparr>))"
proof -
  have "has_type errorCodes ErrDetailTypeMismatch ErrorEXDetailTypeMismatch_type"
    using assms(1) by (simp add: reserved_registered_def)
  then have "New errorCodes ErrDetailTypeMismatch
        (ErrorEXDetailTypeMismatch (type_String expected) (type_String actual)) =
      Some (Return \<lparr>code = ErrDetailTypeMismatch,
        detail = ErrorEXDetailTypeMismatch (type_String expected) (type_String actual)\<rparr>)"
    unfolding ErrorEXDetailTypeMismatch_def by (rule New_reserved)
  then show ?thesis
    using assms(2-5) by (subst New.simps) (simp add: panic_def)
qed

lemma New_nil_type:
  assumes "errorCodes c = Some e" and "reflect_TypeOf d \<noteq> detailType e"
    and "reflect_TypeOf d = None \<or> detailType e = None"
  shows "New errorCodes c d = Some (Panic nil_dereference)"
  using assms by (subst New.simps) (auto split: option.splits)

lemma panic_not_Return: "do { r \<leftarrow> m; Some (panic r) } \<noteq> Some (Return x)"
  by (cases m) (auto simp: panic_def split: result.splits)

lemma RegisterErrorCode_Return:
  "RegisterErrorCode r c descr d = Some (Return r') \<longleftrightarrow>
     r c = None \<and>
     r' = r(c \<mapsto> \<lparr>entry_code = c, description = descr, detailType = reflect_TypeOf d\<rparr>)"
  by (cases "r c") (auto simp: RegisterErrorCode_def panic_not_Return)

lemma registered_later_keeps:
  "registered_later r r' \<Longrightarrow> r c = Some e \<Longrightarrow> r' c = Some e"
  by (induction rule: registered_later.induct) (auto simp: RegisterErrorCode_Return)

lemma registered_later_reserved:
  "registered_later r r' \<Longrightarrow> reserved_registered r \<Longrightarrow> reserved_registered r'"
  by (auto simp: reserved_registered_def has_type_def split: option.splits
      dest: registered_later_keeps)

lemma init_runs: "init Map.empty = Some (Return initial_registry)"
  by (simp add: init_def RegisterErrorCode_def and_then_def initial_registry_def
      reserved_codes UnknownErrorDetail_def ErrorEXDetail_def ErrorEXDetailTypeMismatch_def)

lemma initial_reserved: "reserved_registered initial_registry"
  by (simp add: reserved_registered_def has_type_def initial_registry_def reserved_codes)

lemma test_registry_registered:
  "RegisterErrorCode initial_registry ''test.is'' ''test description'' (Message []) =
     Some (Return test_registry)"
  by (simp add: RegisterErrorCode_Return test_registry_def initial_registry_def
      reserved_codes Message_def)

lemma test_registry_reserved: "reserved_registered test_registry"
  using registered_later_reserved [OF step [OF same test_registry_registered] initial_reserved] .

section \<open>What \<open>New\<close> and \<open>Is\<close> do, case by case\<close>

text \<open>
  \<open>New\<close> returns only on a registered code with a detail of the registered type, and
  then the struct built from its two arguments.
\<close>

lemma New_Return:
  "New errorCodes c d = Some (Return e) \<longleftrightarrow>
     (\<exists>entry. errorCodes c = Some entry \<and> reflect_TypeOf d = detailType entry) \<and>
     e = \<lparr>code = c, detail = d\<rparr>"
  by (subst New.simps) (auto simp: panic_not_Return split: option.splits)

text \<open>
  \<open>Is\<close>: the panic on an unregistered code, \<open>False\<close> on nil, on a value that is not a
  pointer and on one without a method \<open>Code\<close>, the nil dereference inside \<open>Code\<close> on the
  nil \<^verbatim>\<open>*ex\<close>, and the comparison of the codes on an error that \<open>New\<close> built.
\<close>

lemma Is_not_registered:
  assumes "reserved_registered errorCodes" and "errorCodes c = None"
  shows "Is errorCodes err c =
           Some (Panic (PanicEX \<lparr>code = ErrCodeNotRegistered, detail = ErrorEXDetail c\<rparr>))"
proof -
  have "has_type errorCodes ErrCodeNotRegistered ErrorEXDetail_type"
    using assms(1) by (simp add: reserved_registered_def)
  then have "New errorCodes ErrCodeNotRegistered (ErrorEXDetail c) =
      Some (Return \<lparr>code = ErrCodeNotRegistered, detail = ErrorEXDetail c\<rparr>)"
    unfolding ErrorEXDetail_def by (rule New_reserved)
  then show ?thesis
    using assms(2) by (simp add: Is_def panic_def)
qed

lemma Is_nil: "errorCodes c = Some entry \<Longrightarrow> Is errorCodes None c = Some (Return False)"
  by (simp add: Is_def)

lemma Is_not_pointer:
  "errorCodes c = Some entry \<Longrightarrow> Kind v \<noteq> reflect_Ptr
     \<Longrightarrow> Is errorCodes (Some v) c = Some (Return False)"
  by (simp add: Is_def)

lemma Is_no_Code_method:
  "errorCodes c = Some entry \<Longrightarrow> MethodByName_Code v = None
     \<Longrightarrow> Is errorCodes (Some v) c = Some (Return False)"
  by (simp add: Is_def)

lemma Is_nil_ex_pointer:
  "errorCodes c = Some entry
     \<Longrightarrow> Is errorCodes (Some (AsEX NilExPtr)) c = Some (Panic nil_dereference)"
  by (simp add: Is_def Call_def Code_method_def)

lemma Call_string_method:
  "Call (string_method s) = Return [\<lparr>value_Kind = reflect_String, value_String = s\<rparr>]"
  by (simp add: Call_def string_method_def Code_method_def)

lemma Is_of_New:
  assumes "New errorCodes c d = Some (Return e)" and "errorCodes' c' = Some entry"
  shows "Is errorCodes' (Some (AsEX (ExPtr e))) c' = Some (Return (c' = c))"
proof -
  have "Code e = c"
    using assms(1) by (simp add: New_Return Code_def)
  then show ?thesis
    using assms(2) by (auto simp: Is_def Call_string_method)
qed

section \<open>Claims about errorex.go\<close>

text \<open>
  C7. For a registered code \<open>c\<close> and a detail \<open>d\<close> whose type is the registered one,
  \<open>New\<close> returns a typed error \<open>e\<close> with \<open>Code e = c\<close> and \<open>Detail e = d\<close>; the two
  accessors return the stored fields and cannot fail.
\<close>

theorem New_round_trip:
  assumes "errorCodes c = Some entry" and "reflect_TypeOf d = detailType entry"
  shows "\<exists>e. New errorCodes c d = Some (Return e) \<and> Code e = c \<and> Detail e = d"
  using assms by (simp add: New_accepts Code_def Detail_def)

theorem New_round_trip_witness:
  "test_registry ''test.is'' =
     Some \<lparr>entry_code = ''test.is'', description = ''test description'',
           detailType = Some Message_type\<rparr> \<and>
   reflect_TypeOf (Message ''test detail'') = Some Message_type \<and>
   (\<exists>e. New test_registry ''test.is'' (Message ''test detail'') = Some (Return e) \<and>
        Code e = ''test.is'' \<and> Detail e = Message ''test detail'')"
proof -
  have h1: "test_registry ''test.is'' =
     Some \<lparr>entry_code = ''test.is'', description = ''test description'',
           detailType = Some Message_type\<rparr>"
    by (simp add: test_registry_def)
  have h2: "reflect_TypeOf (Message ''test detail'') =
     detailType \<lparr>entry_code = ''test.is'', description = ''test description'',
           detailType = Some Message_type\<rparr>"
    by (simp add: Message_def)
  show ?thesis
    using h1 h2
      New_round_trip [of test_registry "''test.is''"
        "\<lparr>entry_code = ''test.is'', description = ''test description'',
          detailType = Some Message_type\<rparr>" "Message ''test detail''"]
    by simp
qed

text \<open>
  C2. A call of \<open>RegisterErrorCode\<close> for a code that is not in the map returns and adds
  the entry; from then on, in every map that later registrations lead to (with the
  reserved codes registered, as they are once \<open>init\<close> has run), a call for the same code
  does not return: it panics with the typed error of code \<open>errorex.002\<close> whose detail
  carries the code.
\<close>

theorem RegisterErrorCode_once:
  assumes "errorCodes c = None"
  shows "RegisterErrorCode errorCodes c descr d =
           Some (Return (errorCodes(c \<mapsto>
             \<lparr>entry_code = c, description = descr, detailType = reflect_TypeOf d\<rparr>))) \<and>
         (\<forall>r descr' d'.
            registered_later (errorCodes(c \<mapsto>
              \<lparr>entry_code = c, description = descr, detailType = reflect_TypeOf d\<rparr>)) r \<and>
            reserved_registered r \<longrightarrow>
            RegisterErrorCode r c descr' d' =
              Some (Panic (PanicEX \<lparr>code = ErrCodeAlreadyRegistered,
                                     detail = ErrorEXDetail c\<rparr>)))"
proof (intro conjI allI impI)
  show "RegisterErrorCode errorCodes c descr d =
           Some (Return (errorCodes(c \<mapsto>
             \<lparr>entry_code = c, description = descr, detailType = reflect_TypeOf d\<rparr>)))"
    using assms by (simp add: RegisterErrorCode_Return)
next
  fix r descr' d'
  let ?entry = "\<lparr>entry_code = c, description = descr, detailType = reflect_TypeOf d\<rparr>"
  assume later: "registered_later (errorCodes(c \<mapsto> ?entry)) r \<and> reserved_registered r"
  then have present: "r c = Some ?entry"
    by (auto intro: registered_later_keeps)
  from later have "has_type r ErrCodeAlreadyRegistered ErrorEXDetail_type"
    by (simp add: reserved_registered_def)
  then have "New r ErrCodeAlreadyRegistered (ErrorEXDetail c) =
      Some (Return \<lparr>code = ErrCodeAlreadyRegistered, detail = ErrorEXDetail c\<rparr>)"
    unfolding ErrorEXDetail_def by (rule New_reserved)
  with present show "RegisterErrorCode r c descr' d' =
      Some (Panic (PanicEX \<lparr>code = ErrCodeAlreadyRegistered, detail = ErrorEXDetail c\<rparr>))"
    by (simp add: RegisterErrorCode_def panic_def)
qed

theorem RegisterErrorCode_once_witness:
  "initial_registry ''test.is'' = None \<and>
   RegisterErrorCode initial_registry ''test.is'' ''test description'' (Message []) =
     Some (Return test_registry) \<and>
   registered_later test_registry test_registry \<and> reserved_registered test_registry \<and>
   RegisterErrorCode test_registry ''test.is'' ''again'' (ErrorEXDetail ''test.is'') =
     Some (Panic (PanicEX \<lparr>code = ''errorex.002'', detail = ErrorEXDetail ''test.is''\<rparr>))"
proof -
  have h: "initial_registry ''test.is'' = None"
    by (simp add: initial_registry_def reserved_codes)
  have t: "initial_registry(''test.is'' \<mapsto>
       \<lparr>entry_code = ''test.is'', description = ''test description'',
        detailType = reflect_TypeOf (Message [])\<rparr>) = test_registry"
    by (simp add: test_registry_def Message_def)
  show ?thesis
    using h RegisterErrorCode_once [of initial_registry "''test.is''" "''test description''"
        "Message []"]
      registered_later.same [of test_registry] test_registry_reserved
    by (simp add: t ErrCodeAlreadyRegistered_def)
qed

text \<open>
  C3, as amended. When \<^verbatim>\<open>json.Marshal\<close> returns the JSON of the detail, \<open>Error\<close>
  returns the string with the code and that JSON; when it returns an error, \<open>Error\<close>
  returns the string with \<^verbatim>\<open>failed to marshal detail:\<close> and the cause in the place of
  the detail; and \<open>Error\<close> returns exactly when \<^verbatim>\<open>json.Marshal\<close> returns: a panic
  inside it (of a \<^verbatim>\<open>MarshalJSON\<close> method of the detail) is not recovered. The claim as
  written (\<open>Error\<close> never raises) fails on a detail whose \<^verbatim>\<open>MarshalJSON\<close> panics.
\<close>

theorem Error_format:
  \<open>(json_Marshal (Detail e) = Return (Inr detailJSON) \<longrightarrow>
      Error json_Marshal e =
        Return (''{"code": "'' @ Code e @ ''", "detail": '' @ detailJSON @ ''}'')) \<and>
   (json_Marshal (Detail e) = Return (Inl cause) \<longrightarrow>
      Error json_Marshal e =
        Return (''{"code": "'' @ Code e @ ''", "detail": "failed to marshal detail: ''
                  @ cause @ ''"}'')) \<and>
   (json_Marshal (Detail e) = Panic p \<longrightarrow> Error json_Marshal e = Panic p) \<and>
   ((\<exists>s. Error json_Marshal e = Return s) \<longleftrightarrow> (\<exists>r. json_Marshal (Detail e) = Return r))\<close>
  by (auto simp: Error_def Code_def Detail_def split: result.splits sum.splits)

theorem Error_format_witness:
  \<open>test_Marshal (Detail \<lparr>code = ''test.format'', detail = Message ''test detail''\<rparr>) =
      Return (Inr ''{"Message":"test detail"}'') \<and>
   Error test_Marshal \<lparr>code = ''test.format'', detail = Message ''test detail''\<rparr> =
      Return ''{"code": "test.format", "detail": {"Message":"test detail"}}'' \<and>
   test_Marshal (Detail \<lparr>code = ''test.format'', detail = a_channel\<rparr>) =
      Return (Inl ''json: unsupported type: chan int'') \<and>
   Error test_Marshal \<lparr>code = ''test.format'', detail = a_channel\<rparr> =
      Return (''{"code": "test.format", "detail": "failed to marshal detail: ''
                @ ''json: unsupported type: chan int"}'') \<and>
   test_Marshal (Detail \<lparr>code = ''test.format'', detail = Boom\<rparr>) =
      Panic (RuntimePanic ''boom'') \<and>
   Error test_Marshal \<lparr>code = ''test.format'', detail = Boom\<rparr> =
      Panic (RuntimePanic ''boom'')\<close>
proof -
  have h1: \<open>test_Marshal (Detail \<lparr>code = ''test.format'', detail = Message ''test detail''\<rparr>) =
      Return (Inr ''{"Message":"test detail"}'')\<close>
    by (simp add: test_Marshal_def Detail_def Message_def)
  have h2: \<open>test_Marshal (Detail \<lparr>code = ''test.format'', detail = a_channel\<rparr>) =
      Return (Inl ''json: unsupported type: chan int'')\<close>
    by (simp add: test_Marshal_def Detail_def Message_def a_channel_def)
  have h3: \<open>test_Marshal (Detail \<lparr>code = ''test.format'', detail = Boom\<rparr>) =
      Panic (RuntimePanic ''boom'')\<close>
    by (simp add: test_Marshal_def Detail_def Message_def a_channel_def Boom_def
        Boom_type_def chan_int_type_def Message_type_def)
  show ?thesis
    using h1 h2 h3
      Error_format [of test_Marshal "\<lparr>code = ''test.format'', detail = Message ''test detail''\<rparr>"
        \<open>''{"Message":"test detail"}''\<close> "''x''" "RuntimePanic ''boom''"]
      Error_format [of test_Marshal "\<lparr>code = ''test.format'', detail = a_channel\<rparr>"
        "''x''" "''json: unsupported type: chan int''" "RuntimePanic ''boom''"]
      Error_format [of test_Marshal "\<lparr>code = ''test.format'', detail = Boom\<rparr>"
        "''x''" "''x''" "RuntimePanic ''boom''"]
    by (simp add: Code_def)
qed

text \<open>
  The detail \<open>Boom\<close> is accepted by \<open>New\<close> once a code is registered with it, and the
  string representation of that typed error panics.
\<close>

theorem Error_panics_counterexample:
  \<open>New (initial_registry(''test.boom'' \<mapsto>
          \<lparr>entry_code = ''test.boom'', description = ''test description'',
           detailType = Some Boom_type\<rparr>)) ''test.boom'' Boom =
      Some (Return \<lparr>code = ''test.boom'', detail = Boom\<rparr>) \<and>
   Error test_Marshal \<lparr>code = ''test.boom'', detail = Boom\<rparr> =
      Panic (RuntimePanic ''boom'')\<close>
proof -
  have \<open>New (initial_registry(''test.boom'' \<mapsto>
          \<lparr>entry_code = ''test.boom'', description = ''test description'',
           detailType = Some Boom_type\<rparr>)) ''test.boom'' Boom =
      Some (Return \<lparr>code = ''test.boom'', detail = Boom\<rparr>)\<close>
    by (rule New_accepts [where e = "\<lparr>entry_code = ''test.boom'',
          description = ''test description'', detailType = Some Boom_type\<rparr>"])
      (simp_all add: Boom_def)
  moreover have \<open>Error test_Marshal \<lparr>code = ''test.boom'', detail = Boom\<rparr> =
      Panic (RuntimePanic ''boom'')\<close>
    by (simp add: Error_def test_Marshal_def Message_def a_channel_def Boom_def
        Boom_type_def chan_int_type_def Message_type_def)
  ultimately show ?thesis by simp
qed

text \<open>
  C1. Claimed for every call of \<open>New\<close>: an unregistered code raises NotRegistered, a
  detail of another type than the registered one raises DetailTypeMismatch with both
  type names, and otherwise the typed error is returned. The lemmas \<open>New_not_registered\<close>,
  \<open>New_mismatch\<close> and \<open>New_accepts\<close> show this when both types are non-nil. With a nil
  interface as detail on a code registered with a struct type, the run below (\<open>init\<close>,
  the registration of the tests, then \<open>New\<close>) ends in a nil dereference and not in the
  typed error of code \<open>errorex.003\<close>.
\<close>

theorem New_nil_detail:
  "and_then (init Map.empty) (\<lambda>r0.
     and_then (RegisterErrorCode r0 ''test.is'' ''test description'' (Message [])) (\<lambda>r.
       New r ''test.is'' NilAny)) =
   Some (Panic (RuntimePanic
     ''runtime error: invalid memory address or nil pointer dereference''))"
proof -
  have "New test_registry ''test.is'' NilAny = Some (Panic nil_dereference)"
    by (rule New_nil_type [where e = "\<lparr>entry_code = ''test.is'',
          description = ''test description'', detailType = Some Message_type\<rparr>"])
      (simp_all add: test_registry_def)
  then show ?thesis
    by (simp add: init_runs test_registry_registered and_then_def nil_dereference_def)
qed

text \<open>
  C10. Claimed: every panic of \<open>RegisterErrorCode\<close>, \<open>New\<close> and \<open>Is\<close> carries a typed
  error built by \<open>New\<close> from a reserved code. The reserved codes are registered by
  \<open>init\<close> (\<open>init_runs\<close>, \<open>initial_reserved\<close>) and stay so (\<open>registered_later_reserved\<close>),
  but a code registered with a nil exemplar makes the mismatch branch of \<open>New\<close> panic
  with a run-time error of Go, which is no typed error.
\<close>

theorem New_nil_exemplar:
  "and_then (init Map.empty) (\<lambda>r0.
     and_then (RegisterErrorCode r0 ''no.detail'' ''no detail'' NilAny) (\<lambda>r.
       New r ''no.detail'' (Message ''test detail''))) =
   Some (Panic (RuntimePanic
     ''runtime error: invalid memory address or nil pointer dereference''))"
proof -
  let ?r = "initial_registry(''no.detail'' \<mapsto>
    \<lparr>entry_code = ''no.detail'', description = ''no detail'', detailType = None\<rparr>)"
  have reg: "RegisterErrorCode initial_registry ''no.detail'' ''no detail'' NilAny =
      Some (Return ?r)"
    by (simp add: RegisterErrorCode_Return initial_registry_def reserved_codes)
  have "New ?r ''no.detail'' (Message ''test detail'') = Some (Panic nil_dereference)"
    by (rule New_nil_type [where e = "\<lparr>entry_code = ''no.detail'',
          description = ''no detail'', detailType = None\<rparr>"])
      (simp_all add: Message_def)
  then show ?thesis
    by (simp add: init_runs reg and_then_def nil_dereference_def)
qed

text \<open>
  C4. Claimed: \<open>Is\<close> panics with NotRegistered on an unregistered code, and on a
  registered one returns \<open>False\<close> for nil and for every error without the capability
  (a method \<open>Code()\<close> without parameters returning a string), \<open>True\<close> for an error of
  \<open>New\<close> and its own code and \<open>False\<close> for another registered code. The lemmas above
  show all of it but one case: on a pointer whose method \<open>Code\<close> takes a parameter,
  \<open>Is\<close> does not return \<open>False\<close>, the reflective call panics.
\<close>

theorem Is_Code_with_parameter:
  "Is test_registry
     (Some (Plain \<lparr>pe_Kind = reflect_Ptr,
        pe_Code = Some \<lparr>numIn = 1, isVariadic = False,
          outs = Return [\<lparr>value_Kind = reflect_String, value_String = ''test.is''\<rparr>]\<rparr>,
        pe_Error = Return ''some error''\<rparr>))
     ''test.is'' =
   Some (Panic (RuntimePanic ''reflect: Call with too few input arguments''))"
  by (simp add: Is_def test_registry_def Call_def)

text \<open>
  C5, as amended. For a registered code \<open>c\<close> and a non-nil error whose method set has
  \<open>Code()\<close> without parameters returning the string \<open>s\<close>, \<open>Is\<close> returns whether the
  value is a pointer and \<open>s = c\<close>. The claim as written (any such value, pointer or not)
  fails on a struct value with \<open>Code()\<close>: the guard on \<^verbatim>\<open>reflect.Ptr\<close> returns \<open>False\<close>
  first.
\<close>

theorem Is_pointer_with_Code:
  assumes "errorCodes c = Some entry" and "MethodByName_Code v = Some (string_method s)"
  shows "Is errorCodes (Some v) c = Some (Return (Kind v = reflect_Ptr \<and> s = c))"
  using assms by (simp add: Is_def Call_string_method)

theorem Is_pointer_with_Code_witness:
  "test_registry ''test.is'' =
     Some \<lparr>entry_code = ''test.is'', description = ''test description'',
           detailType = Some Message_type\<rparr> \<and>
   MethodByName_Code (AsEX (ExPtr \<lparr>code = ''test.is'', detail = Message ''test detail''\<rparr>)) =
     Some (string_method ''test.is'') \<and>
   Is test_registry (Some (AsEX (ExPtr \<lparr>code = ''test.is'', detail = Message ''test detail''\<rparr>)))
     ''test.is'' = Some (Return True)"
proof -
  have h1: "test_registry ''test.is'' =
     Some \<lparr>entry_code = ''test.is'', description = ''test description'',
           detailType = Some Message_type\<rparr>"
    by (simp add: test_registry_def)
  have h2: "MethodByName_Code
      (AsEX (ExPtr \<lparr>code = ''test.is'', detail = Message ''test detail''\<rparr>)) =
     Some (string_method ''test.is'')"
    by (simp add: Code_def)
  show ?thesis
    using h1 h2
      Is_pointer_with_Code [of test_registry "''test.is''"
        "\<lparr>entry_code = ''test.is'', description = ''test description'',
          detailType = Some Message_type\<rparr>"
        "AsEX (ExPtr \<lparr>code = ''test.is'', detail = Message ''test detail''\<rparr>)" "''test.is''"]
    by simp
qed

theorem Is_non_pointer_counterexample:
  "MethodByName_Code (AsEX (ForeignEX \<lparr>fx_Kind = reflect_Struct, fx_Code = Return ''test.is'',
       fx_Detail = Return (Message ''test detail''),
       fx_Error = Return ''some error''\<rparr>)) =
     Some (string_method ''test.is'') \<and>
   Is test_registry
     (Some (AsEX (ForeignEX \<lparr>fx_Kind = reflect_Struct, fx_Code = Return ''test.is'',
        fx_Detail = Return (Message ''test detail''),
       fx_Error = Return ''some error''\<rparr>)))
     ''test.is'' = Some (Return False)"
  by (simp add: Is_def test_registry_def string_method_def)

section \<open>Claims about error\_converter.go\<close>

text \<open>
  C9. A \<open>BaseErrorConverter\<close> without a successor returns nil for every error; with a
  successor set by \<open>SetNext\<close> it returns what the successor returns, for every error.
\<close>

theorem BaseErrorConverter_delegates:
  "ConvertError \<lparr>next' = None\<rparr> err = Some (Return None) \<and>
   ConvertError (SetNext b (Some n)) err = n err"
  by (simp add: ConvertError_def SetNext_def)



text \<open>
  C6, as amended. With the reserved codes registered, for every input error whose
  \<^verbatim>\<open>Error()\<close> returns a message the converter of unknown errors returns the typed error
  of code \<open>errorex.000\<close> whose detail holds that message; it does not return nil, and
  neither does a \<open>BaseErrorConverter\<close> or an \<open>exErrorConverter\<close> that has it as
  successor. When \<^verbatim>\<open>err.Error()\<close> panics, the converter panics likewise. The claim as
  written (every input, never failing) fails on the nil error, where \<^verbatim>\<open>err.Error()\<close> is
  a nil dereference.
\<close>

theorem unknown_ConvertError_total:
  assumes "reserved_registered errorCodes"
  shows "(error_Error json_Marshal err = Return msg \<longrightarrow>
            unknown_ConvertError json_Marshal errorCodes u err =
              Some (Return (Some (ExPtr \<lparr>code = ErrCodeUnknownError,
                                          detail = UnknownErrorDetail msg\<rparr>))) \<and>
            ConvertError (SetNext b (Some (unknown_ConvertError json_Marshal errorCodes u)))
              err =
              Some (Return (Some (ExPtr \<lparr>code = ErrCodeUnknownError,
                                          detail = UnknownErrorDetail msg\<rparr>))) \<and>
            (\<exists>x. ex_ConvertError
                   (NewEXErrorConverter (Some (unknown_ConvertError json_Marshal errorCodes u)))
                   err = Some (Return (Some x)))) \<and>
         (error_Error json_Marshal err = Panic p \<longrightarrow>
            unknown_ConvertError json_Marshal errorCodes u err = Some (Panic p))"
proof (intro conjI impI)
  assume msg: "error_Error json_Marshal err = Return msg"
  have "has_type errorCodes ErrCodeUnknownError UnknownErrorDetail_type"
    using assms by (simp add: reserved_registered_def)
  then have "New errorCodes ErrCodeUnknownError (UnknownErrorDetail msg) =
      Some (Return \<lparr>code = ErrCodeUnknownError, detail = UnknownErrorDetail msg\<rparr>)"
    unfolding UnknownErrorDetail_def by (rule New_reserved)
  with msg show unknown: "unknown_ConvertError json_Marshal errorCodes u err =
      Some (Return (Some (ExPtr \<lparr>code = ErrCodeUnknownError,
                                  detail = UnknownErrorDetail msg\<rparr>)))"
    by (simp add: unknown_ConvertError_def)
  then show "ConvertError (SetNext b (Some (unknown_ConvertError json_Marshal errorCodes u)))
      err =
      Some (Return (Some (ExPtr \<lparr>code = ErrCodeUnknownError,
                                  detail = UnknownErrorDetail msg\<rparr>)))"
    by (simp add: ConvertError_def SetNext_def)
  from unknown show "\<exists>x. ex_ConvertError
      (NewEXErrorConverter (Some (unknown_ConvertError json_Marshal errorCodes u))) err =
      Some (Return (Some x))"
    by (cases "assert_EX err")
      (simp_all add: ex_ConvertError_def NewEXErrorConverter_def ConvertError_def SetNext_def)
next
  assume "error_Error json_Marshal err = Panic p"
  then show "unknown_ConvertError json_Marshal errorCodes u err = Some (Panic p)"
    by (simp add: unknown_ConvertError_def)
qed

theorem unknown_ConvertError_total_witness:
  "reserved_registered initial_registry \<and>
   error_Error test_Marshal
     (Some (Plain \<lparr>pe_Kind = reflect_Ptr, pe_Code = None, pe_Error = Return ''test error''\<rparr>)) =
     Return ''test error'' \<and>
   unknown_ConvertError test_Marshal initial_registry NewUnknownErrorConverter
     (Some (Plain \<lparr>pe_Kind = reflect_Ptr, pe_Code = None, pe_Error = Return ''test error''\<rparr>)) =
     Some (Return (Some (ExPtr \<lparr>code = ''errorex.000'',
                                 detail = UnknownErrorDetail ''test error''\<rparr>))) \<and>
   error_Error test_Marshal (Some (AsEX NilExPtr)) = Panic nil_dereference \<and>
   unknown_ConvertError test_Marshal initial_registry NewUnknownErrorConverter
     (Some (AsEX NilExPtr)) = Some (Panic nil_dereference) \<and>
   error_Error test_Marshal (Some (AsEX (ExPtr \<lparr>code = ''test.boom'', detail = Boom\<rparr>))) =
     Panic (RuntimePanic ''boom'') \<and>
   unknown_ConvertError test_Marshal initial_registry NewUnknownErrorConverter
     (Some (AsEX (ExPtr \<lparr>code = ''test.boom'', detail = Boom\<rparr>))) =
     Some (Panic (RuntimePanic ''boom''))"
proof -
  let ?plain = "Some (Plain \<lparr>pe_Kind = reflect_Ptr, pe_Code = None,
                               pe_Error = Return ''test error''\<rparr>)"
  let ?boom = "Some (AsEX (ExPtr \<lparr>code = ''test.boom'', detail = Boom\<rparr>))"
  have h1: "error_Error test_Marshal ?plain = Return ''test error''" by simp
  have h2: "error_Error test_Marshal (Some (AsEX NilExPtr)) = Panic nil_dereference" by simp
  have h3: "error_Error test_Marshal ?boom = Panic (RuntimePanic ''boom'')"
    by (simp add: Error_def test_Marshal_def Message_def a_channel_def Boom_def
        Boom_type_def chan_int_type_def Message_type_def)
  show ?thesis
    using initial_reserved h1 h2 h3
      unknown_ConvertError_total [OF initial_reserved, of test_Marshal ?plain "''test error''"
        NewUnknownErrorConverter "\<lparr>next' = None\<rparr>" nil_dereference]
      unknown_ConvertError_total [OF initial_reserved, of test_Marshal "Some (AsEX NilExPtr)"
        "''x''" NewUnknownErrorConverter "\<lparr>next' = None\<rparr>" nil_dereference]
      unknown_ConvertError_total [OF initial_reserved, of test_Marshal ?boom
        "''x''" NewUnknownErrorConverter "\<lparr>next' = None\<rparr>" "RuntimePanic ''boom''"]
    by (simp add: ErrCodeUnknownError_def)
qed

theorem unknown_ConvertError_nil_counterexample:
  "unknown_ConvertError test_Marshal initial_registry NewUnknownErrorConverter None =
     Some (Panic (RuntimePanic
       ''runtime error: invalid memory address or nil pointer dereference''))"
  by (simp add: unknown_ConvertError_def nil_dereference_def)

end
